theory Spec2Isabelle
  imports Main "HOL-Library.Word" "HOL-Library.AList"
begin

unbundle bit_operations_syntax

section \<open>The OS library of LuaJIT (src/lib\_os.c): date and time\<close>

text \<open>
  The theory embeds the four helpers and the two library functions of
  \<^verbatim>\<open>lib_os.c\<close> that convert between Lua tables, \<^verbatim>\<open>struct tm\<close> and text:
  \<^verbatim>\<open>setfield\<close>, \<^verbatim>\<open>setboolfield\<close>, \<^verbatim>\<open>getboolfield\<close>, \<^verbatim>\<open>getfield\<close>,
  \<^verbatim>\<open>os_date\<close> and \<^verbatim>\<open>os_time\<close>.

  The C library (\<^verbatim>\<open>time\<close>, \<^verbatim>\<open>gmtime_r\<close>, \<^verbatim>\<open>localtime_r\<close>, \<^verbatim>\<open>strftime\<close>,
  \<^verbatim>\<open>mktime\<close>), the string buffer of \<^verbatim>\<open>lj_buf.h\<close> and the conversions between
  \<^verbatim>\<open>lua_Number\<close> (a C double) and integers or strings are not part of the file: they are
  the fields of an environment record, and every theorem holds for every environment
  unless it says otherwise. Each call of such a primitive is appended to a log kept in
  the state, so that "how many times was \<^verbatim>\<open>strftime\<close> called" is a property of the result.
\<close>

subsection \<open>Machine types\<close>

type_synonym c_int = "32 word"   \<comment> \<open>C \<^verbatim>\<open>int\<close>, read with \<open>sint\<close>\<close>
type_synonym MSize = "32 word"   \<comment> \<open>\<^verbatim>\<open>uint32_t\<close>, read with \<open>unat\<close>\<close>
type_synonym time_t = "64 word"  \<comment> \<open>read with \<open>sint\<close>\<close>

record tm =
  tm_sec :: c_int
  tm_min :: c_int
  tm_hour :: c_int
  tm_mday :: c_int
  tm_mon :: c_int
  tm_year :: c_int
  tm_wday :: c_int
  tm_yday :: c_int
  tm_isdst :: c_int

subsection \<open>Lua values, errors, the state\<close>

text \<open>
  \<open>'n\<close> is \<^verbatim>\<open>lua_Number\<close>. A table is the association list of its string keys; a key
  that is not listed reads as nil. Tables carry no metatable here.
\<close>

datatype 'n TValue =
    TNil
  | TBool bool
  | TNum 'n
  | TStr string
  | TTab "(string \<times> 'n TValue) list"
  | TFunc

datatype lj_error =
    LJ_ERR_OSDATEF string   \<comment> \<open>"field '%s' missing in date table"\<close>
  | LJ_ERR_ARGTYPE nat      \<comment> \<open>bad argument \#n (wrong type)\<close>
  | LJ_ERR_OPINDEX          \<comment> \<open>attempt to index a value that is not a table\<close>
  | LJ_ERR_MEM              \<comment> \<open>the buffer cannot grow\<close>

datatype ext_call =
    Call_getfield string
  | Call_time
  | Call_gmtime time_t
  | Call_localtime time_t
  | Call_buf_need MSize
  | Call_strftime MSize string tm
  | Call_mktime tm

text \<open>
  \<open>stack\<close> is the frame of the running C function, from \<^verbatim>\<open>L->base\<close> (index 1, the head
  of the list) to \<^verbatim>\<open>L->top\<close>; \<open>tmpbuf\<close> is the capacity \<^verbatim>\<open>sbufsz\<close> of the
  global scratch buffer \<^verbatim>\<open>G(L)->tmpbuf\<close>; \<open>calls\<close> is the log.
\<close>

record 'n lua_State =
  stack :: "'n TValue list"
  tmpbuf :: MSize
  calls :: "ext_call list"

record 'n os_env =
  time_now :: time_t                                \<comment> \<open>\<^verbatim>\<open>time(NULL)\<close>\<close>
  gmtime_r :: "time_t \<Rightarrow> tm option"                   \<comment> \<open>\<open>None\<close> is \<^verbatim>\<open>NULL\<close>\<close>
  localtime_r :: "time_t \<Rightarrow> tm option"
  strftime :: "MSize \<Rightarrow> string \<Rightarrow> tm \<Rightarrow> string"      \<comment> \<open>the bytes written; \<open>[]\<close> is the return value 0\<close>
  mktime :: "tm \<Rightarrow> time_t"
  lj_buf_need :: "MSize \<Rightarrow> MSize \<Rightarrow> MSize option"    \<comment> \<open>old capacity, request, new capacity\<close>
  ts_uninit :: tm                                   \<comment> \<open>the bytes of an uninitialised \<^verbatim>\<open>struct tm\<close>\<close>
  int2num :: "int \<Rightarrow> 'n"                             \<comment> \<open>\<^verbatim>\<open>(lua_Number)\<close> of an integer\<close>
  num2int :: "'n \<Rightarrow> int"                             \<comment> \<open>\<^verbatim>\<open>(lua_Integer)\<close> of a number\<close>
  num2time :: "'n \<Rightarrow> time_t"                         \<comment> \<open>\<^verbatim>\<open>(time_t)\<close> of a number\<close>
  time2num :: "time_t \<Rightarrow> 'n"                         \<comment> \<open>\<^verbatim>\<open>(lua_Number)\<close> of a \<^verbatim>\<open>time_t\<close>\<close>
  strscan :: "string \<Rightarrow> 'n option"                   \<comment> \<open>a string read as a number, if it is one\<close>
  num2str :: "'n \<Rightarrow> string"

text \<open>A computation returns an error or a value, and the state in both cases.\<close>

type_synonym ('n, 'a) lj = "'n lua_State \<Rightarrow> (lj_error + 'a) \<times> 'n lua_State"

definition returnL :: "'a \<Rightarrow> ('n, 'a) lj" where
  "returnL a L = (Inr a, L)"

definition bindL :: "('n, 'a) lj \<Rightarrow> ('a \<Rightarrow> ('n, 'b) lj) \<Rightarrow> ('n, 'b) lj" where
  "bindL m f L = (case m L of (Inl e, L') \<Rightarrow> (Inl e, L') | (Inr a, L') \<Rightarrow> f a L')"

definition log_call :: "ext_call \<Rightarrow> 'n lua_State \<Rightarrow> 'n lua_State" where
  "log_call c L = L\<lparr>calls := calls L @ [c]\<rparr>"

subsection \<open>The stack and table interface of lua.h\<close>

text \<open>
  Modelled from the spec: the functions of \<^verbatim>\<open>lua.h\<close> and \<^verbatim>\<open>lauxlib.h\<close> that
  \<^verbatim>\<open>lib_os.c\<close> calls are implemented in \<^verbatim>\<open>lj_api.c\<close>, which is not among the sources.
  The spec treats them as "an opaque key-value store with get/set/type-check
  operations"; the definitions below give each the behaviour the Lua reference manual
  documents for it, on tables without metatables.
\<close>

definition index2pos :: "'n lua_State \<Rightarrow> int \<Rightarrow> nat option" where
  "index2pos L idx =
     (let n = int (length (stack L)) in
      if 0 < idx \<and> idx \<le> n then Some (nat (idx - 1))
      else if idx < 0 \<and> - idx \<le> n then Some (nat (n + idx))
      else None)"

definition index2adr :: "'n lua_State \<Rightarrow> int \<Rightarrow> 'n TValue option" where
  "index2adr L idx = map_option (\<lambda>i. stack L ! i) (index2pos L idx)"

definition lua_push :: "'n TValue \<Rightarrow> 'n lua_State \<Rightarrow> 'n lua_State" where
  "lua_push v L = L\<lparr>stack := stack L @ [v]\<rparr>"

definition lua_pop :: "nat \<Rightarrow> 'n lua_State \<Rightarrow> 'n lua_State" where
  "lua_pop n L = L\<lparr>stack := take (length (stack L) - n) (stack L)\<rparr>"

definition lua_settop :: "nat \<Rightarrow> 'n lua_State \<Rightarrow> 'n lua_State" where
  "lua_settop n L = L\<lparr>stack := take n (stack L) @ replicate (n - length (stack L)) TNil\<rparr>"

definition lua_isnoneornil :: "'n lua_State \<Rightarrow> int \<Rightarrow> bool" where
  "lua_isnoneornil L idx = (case index2adr L idx of None \<Rightarrow> True | Some v \<Rightarrow> v = TNil)"

definition lua_isnil :: "'n lua_State \<Rightarrow> int \<Rightarrow> bool" where
  "lua_isnil L idx = (index2adr L idx = Some TNil)"

text \<open>A number, or a string that reads as a number.\<close>

fun tv_isnumber :: "'n os_env \<Rightarrow> 'n TValue \<Rightarrow> bool" where
  "tv_isnumber env (TNum n) = True"
| "tv_isnumber env (TStr s) = (strscan env s \<noteq> None)"
| "tv_isnumber env v = False"

fun tv_tonumber :: "'n os_env \<Rightarrow> 'n TValue \<Rightarrow> 'n option" where
  "tv_tonumber env (TNum n) = Some n"
| "tv_tonumber env (TStr s) = strscan env s"
| "tv_tonumber env v = None"

definition lua_isnumber :: "'n os_env \<Rightarrow> 'n lua_State \<Rightarrow> int \<Rightarrow> bool" where
  "lua_isnumber env L idx = (case index2adr L idx of None \<Rightarrow> False | Some v \<Rightarrow> tv_isnumber env v)"

definition tv_tointeger :: "'n os_env \<Rightarrow> 'n TValue \<Rightarrow> int" where
  "tv_tointeger env v = (case tv_tonumber env v of None \<Rightarrow> 0 | Some n \<Rightarrow> num2int env n)"

definition lua_tointeger :: "'n os_env \<Rightarrow> 'n lua_State \<Rightarrow> int \<Rightarrow> int" where
  "lua_tointeger env L idx =
     (case index2adr L idx of None \<Rightarrow> 0 | Some v \<Rightarrow> tv_tointeger env v)"

text \<open>Every value is true except nil and false.\<close>

definition lua_toboolean :: "'n lua_State \<Rightarrow> int \<Rightarrow> c_int" where
  "lua_toboolean L idx =
     (case index2adr L idx of
        None \<Rightarrow> 0
      | Some v \<Rightarrow> if v = TNil \<or> v = TBool False then 0 else 1)"

definition lua_pushinteger :: "'n os_env \<Rightarrow> int \<Rightarrow> 'n lua_State \<Rightarrow> 'n lua_State" where
  "lua_pushinteger env i = lua_push (TNum (int2num env i))"

definition lua_pushboolean :: "c_int \<Rightarrow> 'n lua_State \<Rightarrow> 'n lua_State" where
  "lua_pushboolean b = lua_push (TBool (b \<noteq> 0))"

definition tab_get :: "(string \<times> 'n TValue) list \<Rightarrow> string \<Rightarrow> 'n TValue" where
  "tab_get t k = (case map_of t k of None \<Rightarrow> TNil | Some v \<Rightarrow> v)"

definition lua_getfield :: "int \<Rightarrow> string \<Rightarrow> ('n, unit) lj" where
  "lua_getfield idx k L =
     (case index2adr L idx of
        Some (TTab t) \<Rightarrow> (Inr (), log_call (Call_getfield k) (lua_push (tab_get t k) L))
      | _ \<Rightarrow> (Inl LJ_ERR_OPINDEX, L))"

text \<open>Stores the value on top of the stack under the key, and pops it.\<close>

definition lua_setfield :: "int \<Rightarrow> string \<Rightarrow> ('n, unit) lj" where
  "lua_setfield idx k L =
     (case (index2pos L idx, index2adr L idx, index2adr L (- 1)) of
        (Some i, Some (TTab t), Some v) \<Rightarrow>
          (Inr (), lua_pop 1 (L\<lparr>stack := (stack L)[i := TTab (AList.update k v t)]\<rparr>))
      | _ \<Rightarrow> (Inl LJ_ERR_OPINDEX, L))"

definition luaL_checktable :: "nat \<Rightarrow> ('n, unit) lj" where
  \<comment> \<open>\<^verbatim>\<open>luaL_checktype(L, idx, LUA_TTABLE)\<close>\<close>
  "luaL_checktable idx L =
     (case index2adr L (int idx) of
        Some (TTab t) \<Rightarrow> (Inr (), L)
      | _ \<Rightarrow> (Inl (LJ_ERR_ARGTYPE idx), L))"

text \<open>A number argument is turned into a string in its stack slot.\<close>

definition luaL_optstring :: "'n os_env \<Rightarrow> nat \<Rightarrow> string \<Rightarrow> ('n, string) lj" where
  "luaL_optstring env idx def L =
     (case index2adr L (int idx) of
        None \<Rightarrow> (Inr def, L)
      | Some TNil \<Rightarrow> (Inr def, L)
      | Some (TStr s) \<Rightarrow> (Inr s, L)
      | Some (TNum n) \<Rightarrow>
          (Inr (num2str env n), L\<lparr>stack := (stack L)[idx - 1 := TStr (num2str env n)]\<rparr>)
      | Some _ \<Rightarrow> (Inl (LJ_ERR_ARGTYPE idx), L))"

definition luaL_checknumber :: "'n os_env \<Rightarrow> nat \<Rightarrow> ('n, 'n) lj" where
  "luaL_checknumber env idx L =
     (case index2adr L (int idx) of
        None \<Rightarrow> (Inl (LJ_ERR_ARGTYPE idx), L)
      | Some v \<Rightarrow> (case tv_tonumber env v of
                    None \<Rightarrow> (Inl (LJ_ERR_ARGTYPE idx), L)
                  | Some n \<Rightarrow> (Inr n, L)))"

text \<open>What the caller receives when a C function returns \<open>n\<close>: the top \<open>n\<close> stack slots.\<close>

definition lj_results :: "nat \<Rightarrow> 'n lua_State \<Rightarrow> 'n TValue list option" where
  "lj_results n L =
     (if n \<le> length (stack L) then Some (drop (length (stack L) - n) (stack L)) else None)"

subsection \<open>The C library and the buffer, logged\<close>

definition c_time :: "'n os_env \<Rightarrow> ('n, time_t) lj" where
  "c_time env L = (Inr (time_now env), log_call Call_time L)"

definition c_gmtime_r :: "'n os_env \<Rightarrow> time_t \<Rightarrow> ('n, tm option) lj" where
  "c_gmtime_r env t L = (Inr (gmtime_r env t), log_call (Call_gmtime t) L)"

definition c_localtime_r :: "'n os_env \<Rightarrow> time_t \<Rightarrow> ('n, tm option) lj" where
  "c_localtime_r env t L = (Inr (localtime_r env t), log_call (Call_localtime t) L)"

definition c_mktime :: "'n os_env \<Rightarrow> tm \<Rightarrow> ('n, time_t) lj" where
  "c_mktime env ts L = (Inr (mktime env ts), log_call (Call_mktime ts) L)"

text \<open>\<^verbatim>\<open>strftime(buf, sbufsz(sb), s, stm)\<close>: the capacity passed is the buffer's.\<close>

definition c_strftime :: "'n os_env \<Rightarrow> string \<Rightarrow> tm \<Rightarrow> ('n, string) lj" where
  "c_strftime env s stm L =
     (Inr (strftime env (tmpbuf L) s stm), log_call (Call_strftime (tmpbuf L) s stm) L)"

definition buf_need :: "'n os_env \<Rightarrow> MSize \<Rightarrow> ('n, unit) lj" where
  \<comment> \<open>\<^verbatim>\<open>lj_buf_need(sb, sz)\<close> on \<^verbatim>\<open>G(L)->tmpbuf\<close>\<close>
  "buf_need env sz L =
     (case lj_buf_need env (tmpbuf L) sz of
        None \<Rightarrow> (Inl LJ_ERR_MEM, log_call (Call_buf_need sz) L)
      | Some cap \<Rightarrow> (Inr (), log_call (Call_buf_need sz) (L\<lparr>tmpbuf := cap\<rparr>)))"

text \<open>The bytes a \<^verbatim>\<open>const char *\<close> shows of a Lua string: those before the first NUL.\<close>

definition c_str :: "string \<Rightarrow> string" where
  "c_str s = takeWhile (\<lambda>c. c \<noteq> CHR 0x00) s"

subsection \<open>lib\_os.c\<close>

definition setfield :: "'n os_env \<Rightarrow> string \<Rightarrow> c_int \<Rightarrow> ('n, unit) lj" where
  "setfield env key v L = lua_setfield (- 2) key (lua_pushinteger env (sint v) L)"

definition setboolfield :: "string \<Rightarrow> c_int \<Rightarrow> ('n, unit) lj" where
  "setboolfield key v L =
     (if v <s 0 then (Inr (), L)
      else lua_setfield (- 2) key (lua_pushboolean v L))"

definition getboolfield :: "string \<Rightarrow> ('n, c_int) lj" where
  "getboolfield key =
     bindL (lua_getfield (- 1) key) (\<lambda>_ L.
       let res = (if lua_isnil L (- 1) then - 1 else lua_toboolean L (- 1))
       in (Inr res, lua_pop 1 L))"

definition getfield :: "'n os_env \<Rightarrow> string \<Rightarrow> c_int \<Rightarrow> ('n, c_int) lj" where
  "getfield env key d =
     bindL (lua_getfield (- 1) key) (\<lambda>_ L.
       if lua_isnumber env L (- 1)
       then (Inr (word_of_int (lua_tointeger env L (- 1))), lua_pop 1 L)
       else if d <s 0 then (Inl (LJ_ERR_OSDATEF key), L)
       else (Inr d, lua_pop 1 L))"

text \<open>
  \<^verbatim>\<open>for (q = s; *q; q++) sz += (*q == '%') ? 30 : 1;\<close> with the running \<open>sz\<close>
  as accumulator.
\<close>

fun date_estimate :: "string \<Rightarrow> MSize \<Rightarrow> MSize" where
  "date_estimate [] sz = sz"
| "date_estimate (q # qs) sz = date_estimate qs (sz + (if q = CHR ''%'' then 30 else 1))"

text \<open>
  \<^verbatim>\<open>while (retry--) { ... }\<close>: the test reads \<open>retry\<close>, then decrements it. A
  non-empty render pushes the string and leaves the loop.
\<close>

function date_loop :: "'n os_env \<Rightarrow> string \<Rightarrow> tm \<Rightarrow> MSize \<Rightarrow> MSize \<Rightarrow> ('n, unit) lj" where
  "date_loop env s stm retry sz L =
     (if retry = 0 then (Inr (), L)
      else (case buf_need env sz L of
              (Inl e, L1) \<Rightarrow> (Inl e, L1)
            | (Inr u, L1) \<Rightarrow>
                (case c_strftime env s stm L1 of
                   (Inl e, L2) \<Rightarrow> (Inl e, L2)
                 | (Inr out, L2) \<Rightarrow>
                     if out \<noteq> [] then (Inr (), lua_push (TStr out) L2)
                     else date_loop env s stm (retry - 1) (sz + (sz OR 1)) L2)))"
  by pat_completeness auto
termination
  by (relation "measure (\<lambda>(env, s, stm, retry, sz, L). unat retry)")
     (auto simp: unat_minus_one unat_gt_0)

declare date_loop.simps [simp del]

definition os_date_table :: "'n os_env \<Rightarrow> tm \<Rightarrow> ('n, unit) lj" where
  \<comment> \<open>the branch \<^verbatim>\<open>strcmp(s, "*t") == 0\<close>\<close>
  "os_date_table env stm =
     bindL (\<lambda>L. (Inr (), lua_push (TTab []) L)) (\<lambda>_.
     bindL (setfield env ''sec'' (tm_sec stm)) (\<lambda>_.
     bindL (setfield env ''min'' (tm_min stm)) (\<lambda>_.
     bindL (setfield env ''hour'' (tm_hour stm)) (\<lambda>_.
     bindL (setfield env ''day'' (tm_mday stm)) (\<lambda>_.
     bindL (setfield env ''month'' (tm_mon stm + 1)) (\<lambda>_.
     bindL (setfield env ''year'' (tm_year stm + 1900)) (\<lambda>_.
     bindL (setfield env ''wday'' (tm_wday stm + 1)) (\<lambda>_.
     bindL (setfield env ''yday'' (tm_yday stm + 1)) (\<lambda>_.
     setboolfield ''isdst'' (tm_isdst stm))))))))))"

definition date_branch :: "'n os_env \<Rightarrow> string \<Rightarrow> tm option \<Rightarrow> ('n, unit) lj" where
  \<comment> \<open>the chain \<^verbatim>\<open>if (stm == NULL) ... else if (strcmp(s, "*t") == 0) ... else if (*s) ... else ...\<close>\<close>
  "date_branch env s stm =
     (case stm of
        None \<Rightarrow> (\<lambda>L. (Inr (), lua_push TNil L))
      | Some stm \<Rightarrow>
          if s = ''*t'' then os_date_table env stm
          else if s \<noteq> [] then date_loop env s stm 4 (date_estimate s 0)
          else (\<lambda>L. (Inr (), lua_push (TStr []) L)))"

definition os_date :: "'n os_env \<Rightarrow> ('n, nat) lj" where
  "os_date env =
     bindL (luaL_optstring env 1 ''%c'') (\<lambda>s0.
     bindL (\<lambda>L. if lua_isnoneornil L 2 then c_time env L
                else bindL (luaL_checknumber env 2) (\<lambda>n. returnL (num2time env n)) L) (\<lambda>t.
     bindL (if c_str s0 \<noteq> [] \<and> hd (c_str s0) = CHR ''!''
            then bindL (c_gmtime_r env t) (\<lambda>stm. returnL (tl (c_str s0), stm))
            else bindL (c_localtime_r env t) (\<lambda>stm. returnL (c_str s0, stm))) (\<lambda>(s, stm).
     bindL (date_branch env s stm) (\<lambda>_.
     returnL 1))))"

definition os_time_table :: "'n os_env \<Rightarrow> ('n, time_t) lj" where
  \<comment> \<open>the \<^verbatim>\<open>else\<close> block of \<^verbatim>\<open>os_time\<close>\<close>
  "os_time_table env =
     bindL (luaL_checktable 1) (\<lambda>_.
     bindL (\<lambda>L. (Inr (), lua_settop 1 L)) (\<lambda>_.
     bindL (getfield env ''sec'' 0) (\<lambda>sec.
     bindL (getfield env ''min'' 0) (\<lambda>min.
     bindL (getfield env ''hour'' 12) (\<lambda>hour.
     bindL (getfield env ''day'' (- 1)) (\<lambda>day.
     bindL (getfield env ''month'' (- 1)) (\<lambda>month.
     bindL (getfield env ''year'' (- 1)) (\<lambda>year.
     bindL (getboolfield ''isdst'') (\<lambda>isdst.
     c_mktime env ((ts_uninit env)
       \<lparr>tm_sec := sec, tm_min := min, tm_hour := hour, tm_mday := day,
        tm_mon := month - 1, tm_year := year - 1900, tm_isdst := isdst\<rparr>))))))))))"

definition os_time :: "'n os_env \<Rightarrow> ('n, nat) lj" where
  "os_time env =
     bindL (\<lambda>L. if lua_isnoneornil L 1 then c_time env L else os_time_table env L) (\<lambda>t.
     bindL (\<lambda>L. (Inr (), if t = - 1 then lua_push TNil L
                         else lua_push (TNum (time2num env t)) L)) (\<lambda>_.
     returnL 1))"

text \<open>What the caller sees of a call: the error, or the values returned.\<close>

definition lj_outcome ::
  "(lj_error + nat) \<times> 'n lua_State \<Rightarrow> lj_error + 'n TValue list option" where
  "lj_outcome r = (case fst r of Inl e \<Rightarrow> Inl e | Inr n \<Rightarrow> Inr (lj_results n (snd r)))"

subsection \<open>Reading the log\<close>

fun field_reads :: "ext_call list \<Rightarrow> string list" where
  "field_reads [] = []"
| "field_reads (Call_getfield k # cs) = k # field_reads cs"
| "field_reads (c # cs) = field_reads cs"

fun buf_requests :: "ext_call list \<Rightarrow> MSize list" where
  "buf_requests [] = []"
| "buf_requests (Call_buf_need sz # cs) = sz # buf_requests cs"
| "buf_requests (c # cs) = buf_requests cs"

fun strftime_caps :: "ext_call list \<Rightarrow> MSize list" where
  "strftime_caps [] = []"
| "strftime_caps (Call_strftime cap s stm # cs) = cap # strftime_caps cs"
| "strftime_caps (c # cs) = strftime_caps cs"

fun mktime_args :: "ext_call list \<Rightarrow> tm list" where
  "mktime_args [] = []"
| "mktime_args (Call_mktime ts # cs) = ts # mktime_args cs"
| "mktime_args (c # cs) = mktime_args cs"

subsection \<open>The vocabulary of the specification\<close>

text \<open>
  The definitions of this part follow the words of the specification; the theorems
  compare them with the functions above.
\<close>

definition date_grow :: "MSize \<Rightarrow> MSize" where
  \<comment> \<open>"newSize = size + (size | 1)"\<close>
  "date_grow sz = sz + (sz OR 1)"

text \<open>The sizes of \<open>k\<close> successive attempts that start at \<open>sz\<close> and grow by that rule.\<close>

fun grow_seq :: "nat \<Rightarrow> MSize \<Rightarrow> MSize list" where
  "grow_seq 0 sz = []"
| "grow_seq (Suc k) sz = sz # grow_seq k (date_grow sz)"


text \<open>
  The C standard on \<^verbatim>\<open>strftime\<close>, for a pattern without conversion specifier: the
  pattern is copied if it fits with its terminating NUL, and 0 is returned otherwise.
\<close>

definition strftime_plain :: "'n os_env \<Rightarrow> bool" where
  "strftime_plain env =
     (\<forall>cap s stm. CHR ''%'' \<notin> set s \<longrightarrow>
        strftime env cap s stm = (if length s < unat cap then s else []))"

definition pattern_units :: "string \<Rightarrow> nat" where
  \<comment> \<open>"ordinary characters as 1 unit [...] every \<open>%\<close> as 30 units", summed\<close>
  "pattern_units s = sum_list (map (\<lambda>c. if c = CHR ''%'' then 30 else 1) s)"

definition date_utc :: "string \<Rightarrow> bool" where
  \<comment> \<open>"a leading \<open>!\<close> means use UTC-based decomposition"\<close>
  "date_utc s0 = (c_str s0 \<noteq> [] \<and> hd (c_str s0) = CHR ''!'')"

definition date_pattern :: "string \<Rightarrow> string" where
  \<comment> \<open>the pattern, "stripped before pattern interpretation"\<close>
  "date_pattern s0 = (if date_utc s0 then tl (c_str s0) else c_str s0)"

definition date_stm :: "'n os_env \<Rightarrow> string \<Rightarrow> time_t \<Rightarrow> tm option" where
  "date_stm env s0 t = (if date_utc s0 then gmtime_r env t else localtime_r env t)"

definition date_stm_call :: "string \<Rightarrow> time_t \<Rightarrow> ext_call" where
  "date_stm_call s0 t = (if date_utc s0 then Call_gmtime t else Call_localtime t)"

text \<open>
  The instant argument: the arguments after the pattern are well-formed when the
  second one is missing, nil, or a number; the instant is then the current time or
  the number.
\<close>

fun instant_ok :: "'n os_env \<Rightarrow> 'n TValue list \<Rightarrow> bool" where
  "instant_ok env [] = True"
| "instant_ok env (v # vs) = (v = TNil \<or> tv_isnumber env v)"

fun opt_instant :: "'n os_env \<Rightarrow> 'n TValue list \<Rightarrow> time_t" where
  "opt_instant env [] = time_now env"
| "opt_instant env (v # vs) =
     (case tv_tonumber env v of None \<Rightarrow> time_now env | Some n \<Rightarrow> num2time env n)"

fun instant_calls :: "'n TValue list \<Rightarrow> ext_call list" where
  "instant_calls [] = [Call_time]"
| "instant_calls (v # vs) = (if v = TNil then [Call_time] else [])"

text \<open>\<^verbatim>\<open>(int)lua_tointeger\<close> of a value, and the field a record contributes.\<close>

definition tv_toint :: "'n os_env \<Rightarrow> 'n TValue \<Rightarrow> c_int" where
  "tv_toint env v = word_of_int (tv_tointeger env v)"

definition field_or :: "'n os_env \<Rightarrow> (string \<times> 'n TValue) list \<Rightarrow> string \<Rightarrow> c_int \<Rightarrow> c_int" where
  "field_or env t k d =
     (if tv_isnumber env (tab_get t k) then tv_toint env (tab_get t k) else d)"

definition isdst_of :: "'n TValue \<Rightarrow> c_int" where
  "isdst_of v = (if v = TNil then - 1 else if v = TBool False then 0 else 1)"

definition compose_tm :: "'n os_env \<Rightarrow> (string \<times> 'n TValue) list \<Rightarrow> tm" where
  "compose_tm env t = (ts_uninit env)
     \<lparr>tm_sec := field_or env t ''sec'' 0,
      tm_min := field_or env t ''min'' 0,
      tm_hour := field_or env t ''hour'' 12,
      tm_mday := tv_toint env (tab_get t ''day''),
      tm_mon := tv_toint env (tab_get t ''month'') - 1,
      tm_year := tv_toint env (tab_get t ''year'') - 1900,
      tm_isdst := isdst_of (tab_get t ''isdst'')\<rparr>"

definition decompose_fields :: "'n os_env \<Rightarrow> tm \<Rightarrow> (string \<times> 'n TValue) list" where
  "decompose_fields env stm =
     [(''sec'', TNum (int2num env (sint (tm_sec stm)))),
      (''min'', TNum (int2num env (sint (tm_min stm)))),
      (''hour'', TNum (int2num env (sint (tm_hour stm)))),
      (''day'', TNum (int2num env (sint (tm_mday stm)))),
      (''month'', TNum (int2num env (sint (tm_mon stm + 1)))),
      (''year'', TNum (int2num env (sint (tm_year stm + 1900)))),
      (''wday'', TNum (int2num env (sint (tm_wday stm + 1)))),
      (''yday'', TNum (int2num env (sint (tm_yday stm + 1))))]
     @ (if tm_isdst stm <s 0 then [] else [(''isdst'', TBool (tm_isdst stm \<noteq> 0))])"

subsection \<open>An environment for the examples\<close>

text \<open>
  Numbers are the integers; no string is read as a number and no number is
  rendered, since the examples pass neither a numeric string nor a number for the
  pattern. The clock stands at the epoch, which both conversions
  accept; they reject every other instant (as a C library rejects an instant whose
  year does not fit an \<^verbatim>\<open>int\<close>). \<^verbatim>\<open>strftime\<close> follows the C standard on a pattern
  without conversion specifier: the pattern is copied when it fits with its
  terminating NUL, and 0 is returned otherwise; a pattern with a specifier renders
  to nothing, as \<^verbatim>\<open>%p\<close> does in a locale without AM/PM designations. The buffer
  grows as in \<^verbatim>\<open>lj_buf.c\<close>: at least 32 bytes, doubled until the request fits, up to
  \<^verbatim>\<open>LJ_MAX_BUF\<close>. \<^verbatim>\<open>mktime\<close> knows the first of January 1970.
\<close>

definition tm_epoch :: tm where
  "tm_epoch = \<lparr>tm_sec = 0, tm_min = 0, tm_hour = 0, tm_mday = 1, tm_mon = 0,
               tm_year = 70, tm_wday = 4, tm_yday = 0, tm_isdst = 0\<rparr>"

fun buf_double :: "nat \<Rightarrow> MSize \<Rightarrow> MSize \<Rightarrow> MSize" where
  "buf_double 0 nsz sz = nsz"
| "buf_double (Suc fuel) nsz sz = (if nsz < sz then buf_double fuel (nsz + nsz) sz else nsz)"

definition ex_buf_need :: "MSize \<Rightarrow> MSize \<Rightarrow> MSize option" where
  "ex_buf_need cap sz =
     (if sz \<le> cap then Some cap
      else if 0x7fffff00 < sz then None
      else Some (buf_double 32 (if cap < 32 then 32 else cap) sz))"

definition ex_strftime :: "MSize \<Rightarrow> string \<Rightarrow> tm \<Rightarrow> string" where
  "ex_strftime cap s stm = (if CHR ''%'' \<notin> set s \<and> length s < unat cap then s else [])"

definition ex_mktime :: "tm \<Rightarrow> time_t" where
  "ex_mktime ts =
     (if tm_year ts = 70 \<and> tm_mon ts = 0 \<and> tm_mday ts = 1
      then word_of_int (sint (tm_hour ts) * 3600 + sint (tm_min ts) * 60 + sint (tm_sec ts))
      else - 1)"

definition ex_env :: "int os_env" where
  "ex_env = \<lparr>time_now = 0,
            gmtime_r = (\<lambda>t. if t = 0 then Some tm_epoch else None),
            localtime_r = (\<lambda>t. if t = 0 then Some tm_epoch else None),
            strftime = ex_strftime,
            mktime = ex_mktime,
            lj_buf_need = ex_buf_need,
            ts_uninit = tm_epoch,
            int2num = (\<lambda>i. i),
            num2int = (\<lambda>n. n),
            num2time = word_of_int,
            time2num = sint,
            strscan = (\<lambda>s. None),
            num2str = (\<lambda>n. [])\<rparr>"

text \<open>
  Two variants. In the first, the UTC conversion accepts an instant of the last day
  of the year 2147485547, the last year whose \<^verbatim>\<open>tm_year\<close> fits an \<^verbatim>\<open>int\<close>
  (Wednesday 31 December, 23:59:52). In the second, the string \<open>1\<close> reads as the
  number 1.
\<close>

definition tm_far :: tm where
  "tm_far = \<lparr>tm_sec = 52, tm_min = 59, tm_hour = 23, tm_mday = 31, tm_mon = 11,
             tm_year = 2147483647, tm_wday = 3, tm_yday = 364, tm_isdst = 0\<rparr>"

definition ex_env_far :: "int os_env" where
  "ex_env_far =
     ex_env\<lparr>gmtime_r := (\<lambda>t. if t = 67768036191676792 then Some tm_far else None)\<rparr>"

definition ex_env_scan :: "int os_env" where
  "ex_env_scan = ex_env\<lparr>strscan := (\<lambda>s. if s = ''1'' then Some 1 else None)\<rparr>"

definition ex_plain32 :: string where
  \<comment> \<open>32 ordinary characters\<close>
  "ex_plain32 = ''xxxxxxxxxxxxxxxxxxxxxxxxxxxxxxxx''"

definition ex_state :: "int TValue list \<Rightarrow> int lua_State" where
  \<comment> \<open>a call with the given arguments, in a fresh state\<close>
  "ex_state args = \<lparr>stack = args, tmpbuf = 0, calls = []\<rparr>"

section \<open>Composing a time from a table: \<^verbatim>\<open>os_time\<close>\<close>

subsection \<open>The field readers on a frame that holds the table\<close>

lemma field_reads_append: "field_reads (xs @ ys) = field_reads xs @ field_reads ys"
  by (induction xs rule: field_reads.induct) simp_all

lemma mktime_args_append: "mktime_args (xs @ ys) = mktime_args xs @ mktime_args ys"
  by (induction xs rule: mktime_args.induct) simp_all

lemma getfield_tab:
  "getfield env key d \<lparr>stack = [TTab t], tmpbuf = b, calls = cs\<rparr> =
     (if tv_isnumber env (tab_get t key)
      then (Inr (tv_toint env (tab_get t key)),
            \<lparr>stack = [TTab t], tmpbuf = b, calls = cs @ [Call_getfield key]\<rparr>)
      else if d <s 0
      then (Inl (LJ_ERR_OSDATEF key),
            \<lparr>stack = [TTab t, tab_get t key], tmpbuf = b, calls = cs @ [Call_getfield key]\<rparr>)
      else (Inr d, \<lparr>stack = [TTab t], tmpbuf = b, calls = cs @ [Call_getfield key]\<rparr>))"
  by (simp add: getfield_def bindL_def lua_getfield_def index2adr_def index2pos_def
      lua_push_def log_call_def lua_isnumber_def lua_tointeger_def lua_pop_def tv_toint_def)

lemma getboolfield_tab:
  "getboolfield key \<lparr>stack = [TTab t], tmpbuf = b, calls = cs\<rparr> =
     (Inr (isdst_of (tab_get t key)),
      \<lparr>stack = [TTab t], tmpbuf = b, calls = cs @ [Call_getfield key]\<rparr>)"
  by (simp add: getboolfield_def bindL_def lua_getfield_def index2adr_def index2pos_def
      lua_push_def log_call_def lua_isnil_def lua_toboolean_def lua_pop_def isdst_of_def Let_def)

subsection \<open>The whole call, by cases on the three required fields\<close>

lemma os_time_table_tab:
  "os_time_table env \<lparr>stack = TTab t # rest, tmpbuf = b, calls = cs\<rparr> =
     (if \<not> tv_isnumber env (tab_get t ''day'') then
        (Inl (LJ_ERR_OSDATEF ''day''),
         \<lparr>stack = [TTab t, tab_get t ''day''], tmpbuf = b,
          calls = cs @ map Call_getfield [''sec'', ''min'', ''hour'', ''day'']\<rparr>)
      else if \<not> tv_isnumber env (tab_get t ''month'') then
        (Inl (LJ_ERR_OSDATEF ''month''),
         \<lparr>stack = [TTab t, tab_get t ''month''], tmpbuf = b,
          calls = cs @ map Call_getfield [''sec'', ''min'', ''hour'', ''day'', ''month'']\<rparr>)
      else if \<not> tv_isnumber env (tab_get t ''year'') then
        (Inl (LJ_ERR_OSDATEF ''year''),
         \<lparr>stack = [TTab t, tab_get t ''year''], tmpbuf = b,
          calls = cs @ map Call_getfield [''sec'', ''min'', ''hour'', ''day'', ''month'', ''year'']\<rparr>)
      else
        (Inr (mktime env (compose_tm env t)),
         \<lparr>stack = [TTab t], tmpbuf = b,
          calls = cs @ map Call_getfield
                         [''sec'', ''min'', ''hour'', ''day'', ''month'', ''year'', ''isdst'']
                     @ [Call_mktime (compose_tm env t)]\<rparr>))"
  by (simp add: os_time_table_def bindL_def luaL_checktable_def index2adr_def index2pos_def
      lua_settop_def getfield_tab getboolfield_tab c_mktime_def log_call_def compose_tm_def
      field_or_def word_sless_alt)

lemma os_time_tab:
  "os_time env \<lparr>stack = TTab t # rest, tmpbuf = b, calls = cs\<rparr> =
     (if \<not> tv_isnumber env (tab_get t ''day'') then
        (Inl (LJ_ERR_OSDATEF ''day''),
         \<lparr>stack = [TTab t, tab_get t ''day''], tmpbuf = b,
          calls = cs @ map Call_getfield [''sec'', ''min'', ''hour'', ''day'']\<rparr>)
      else if \<not> tv_isnumber env (tab_get t ''month'') then
        (Inl (LJ_ERR_OSDATEF ''month''),
         \<lparr>stack = [TTab t, tab_get t ''month''], tmpbuf = b,
          calls = cs @ map Call_getfield [''sec'', ''min'', ''hour'', ''day'', ''month'']\<rparr>)
      else if \<not> tv_isnumber env (tab_get t ''year'') then
        (Inl (LJ_ERR_OSDATEF ''year''),
         \<lparr>stack = [TTab t, tab_get t ''year''], tmpbuf = b,
          calls = cs @ map Call_getfield [''sec'', ''min'', ''hour'', ''day'', ''month'', ''year'']\<rparr>)
      else
        (Inr 1,
         \<lparr>stack = [TTab t, if mktime env (compose_tm env t) = - 1 then TNil
                              else TNum (time2num env (mktime env (compose_tm env t)))],
          tmpbuf = b,
          calls = cs @ map Call_getfield
                         [''sec'', ''min'', ''hour'', ''day'', ''month'', ''year'', ''isdst'']
                     @ [Call_mktime (compose_tm env t)]\<rparr>))"
  by (simp add: os_time_def bindL_def returnL_def lua_isnoneornil_def index2adr_def index2pos_def
      os_time_table_tab lua_push_def)

lemma state_with_table:
  assumes "stack L = TTab t # rest"
  obtains b cs where "L = \<lparr>stack = TTab t # rest, tmpbuf = b, calls = cs\<rparr>"
  using assms by (cases L) auto

text \<open>
  Claim C8. The fields are read in the order sec, min, hour, day, month, year, isdst.
  The error names the first of day, month, year that is not usable (absent, or not a
  number): a record without the three reports day. Whenever the call fails, the log
  holds no call of \<^verbatim>\<open>mktime\<close> that was not there before, and the field reads stop
  at the field that is named.
\<close>

theorem os_time_names_first_missing:
  assumes "stack L = TTab t # rest"
  shows "(\<not> tv_isnumber env (tab_get t ''day'') \<longrightarrow>
            fst (os_time env L) = Inl (LJ_ERR_OSDATEF ''day'') \<and>
            field_reads (calls (snd (os_time env L))) =
              field_reads (calls L) @ [''sec'', ''min'', ''hour'', ''day''])
       \<and> (tv_isnumber env (tab_get t ''day'') \<and> \<not> tv_isnumber env (tab_get t ''month'') \<longrightarrow>
            fst (os_time env L) = Inl (LJ_ERR_OSDATEF ''month'') \<and>
            field_reads (calls (snd (os_time env L))) =
              field_reads (calls L) @ [''sec'', ''min'', ''hour'', ''day'', ''month''])
       \<and> (tv_isnumber env (tab_get t ''day'') \<and> tv_isnumber env (tab_get t ''month'') \<and>
          \<not> tv_isnumber env (tab_get t ''year'') \<longrightarrow>
            fst (os_time env L) = Inl (LJ_ERR_OSDATEF ''year'') \<and>
            field_reads (calls (snd (os_time env L))) =
              field_reads (calls L) @ [''sec'', ''min'', ''hour'', ''day'', ''month'', ''year''])
       \<and> (tv_isnumber env (tab_get t ''day'') \<and> tv_isnumber env (tab_get t ''month'') \<and>
          tv_isnumber env (tab_get t ''year'') \<longrightarrow>
            fst (os_time env L) = Inr 1 \<and>
            field_reads (calls (snd (os_time env L))) =
              field_reads (calls L) @
                [''sec'', ''min'', ''hour'', ''day'', ''month'', ''year'', ''isdst''])
       \<and> (tab_get t ''day'' = TNil \<and> tab_get t ''month'' = TNil \<and> tab_get t ''year'' = TNil \<longrightarrow>
            fst (os_time env L) = Inl (LJ_ERR_OSDATEF ''day''))
       \<and> (\<forall>e. fst (os_time env L) = Inl e \<longrightarrow>
            mktime_args (calls (snd (os_time env L))) = mktime_args (calls L))"
proof -
  obtain b cs where L: "L = \<lparr>stack = TTab t # rest, tmpbuf = b, calls = cs\<rparr>"
    using assms by (rule state_with_table)
  show ?thesis
    unfolding L by (simp add: os_time_tab field_reads_append mktime_args_append)
qed

text \<open>
  The table \<open>{hour = 5}\<close> lacks the three required fields: the call fails on day after
  reading sec, min, hour and day, and \<^verbatim>\<open>mktime\<close> is not called.
\<close>

theorem os_time_names_first_missing_witness:
  "stack (ex_state [TTab [(''hour'', TNum 5)]]) = TTab [(''hour'', TNum 5)] # []
   \<and> fst (os_time ex_env (ex_state [TTab [(''hour'', TNum 5)]])) = Inl (LJ_ERR_OSDATEF ''day'')
   \<and> field_reads (calls (snd (os_time ex_env (ex_state [TTab [(''hour'', TNum 5)]])))) =
       [''sec'', ''min'', ''hour'', ''day'']
   \<and> mktime_args (calls (snd (os_time ex_env (ex_state [TTab [(''hour'', TNum 5)]])))) = []"
  using os_time_names_first_missing
    [of "ex_state [TTab [(''hour'', TNum 5)]]" "[(''hour'', TNum 5)]" "[]" ex_env]
  by (simp add: ex_state_def tab_get_def)

subsection \<open>Values that are not numbers\<close>

lemma tab_get_delete:
  "tab_get (AList.delete k t) j = (if j = k then TNil else tab_get t j)"
  by (simp add: tab_get_def delete_conv)

lemma tv_tonumber_None: "\<not> tv_isnumber env v \<Longrightarrow> tv_tonumber env v = None"
  by (cases v) simp_all

lemma tv_toint_not_number: "\<not> tv_isnumber env v \<Longrightarrow> tv_toint env v = 0"
  by (simp add: tv_toint_def tv_tointeger_def tv_tonumber_None)

lemma compose_tm_delete:
  assumes "\<not> tv_isnumber env (tab_get t k)" and "k \<noteq> ''isdst''"
  shows "compose_tm env (AList.delete k t) = compose_tm env t"
  using assms
  by (simp add: compose_tm_def field_or_def tab_get_delete tv_toint_not_number)

lemma isnumber_delete:
  assumes "\<not> tv_isnumber env (tab_get t k)"
  shows "tv_isnumber env (tab_get (AList.delete k t) j) = tv_isnumber env (tab_get t j)"
  using assms by (simp add: tab_get_delete)

subsection \<open>Required and optional fields\<close>

text \<open>
  Claim C2. For every table passed to \<^verbatim>\<open>os_time\<close>: when day, month or year is absent
  the call fails with the error that names a required field the table does not supply
  (an absent one, when every required field is absent or a number), and \<^verbatim>\<open>mktime\<close> is
  not called, so that no value is substituted. When the three are numbers, the call
  returns one value and \<^verbatim>\<open>mktime\<close> receives the three fields (month less 1, year
  less 1900), with 0, 0 and 12 for an absent sec, min and hour, and -1 for an absent
  isdst.
\<close>

theorem os_time_required_fields:
  assumes "stack L = TTab t # rest"
  shows "(tab_get t ''day'' = TNil \<or> tab_get t ''month'' = TNil \<or> tab_get t ''year'' = TNil \<longrightarrow>
            (\<exists>k \<in> {''day'', ''month'', ''year''}.
                fst (os_time env L) = Inl (LJ_ERR_OSDATEF k) \<and>
                \<not> tv_isnumber env (tab_get t k) \<and>
                ((\<forall>j \<in> {''day'', ''month'', ''year''}.
                     tab_get t j = TNil \<or> tv_isnumber env (tab_get t j)) \<longrightarrow>
                 tab_get t k = TNil)) \<and>
            mktime_args (calls (snd (os_time env L))) = mktime_args (calls L))
       \<and> (tv_isnumber env (tab_get t ''day'') \<and> tv_isnumber env (tab_get t ''month'') \<and>
          tv_isnumber env (tab_get t ''year'') \<longrightarrow>
            fst (os_time env L) = Inr 1 \<and>
            (\<exists>ts. mktime_args (calls (snd (os_time env L))) = mktime_args (calls L) @ [ts] \<and>
                  tm_mday ts = tv_toint env (tab_get t ''day'') \<and>
                  tm_mon ts = tv_toint env (tab_get t ''month'') - 1 \<and>
                  tm_year ts = tv_toint env (tab_get t ''year'') - 1900 \<and>
                  (tab_get t ''sec'' = TNil \<longrightarrow> tm_sec ts = 0) \<and>
                  (tab_get t ''min'' = TNil \<longrightarrow> tm_min ts = 0) \<and>
                  (tab_get t ''hour'' = TNil \<longrightarrow> tm_hour ts = 12) \<and>
                  (tab_get t ''isdst'' = TNil \<longrightarrow> tm_isdst ts = - 1)))"
proof -
  obtain b cs where L: "L = \<lparr>stack = TTab t # rest, tmpbuf = b, calls = cs\<rparr>"
    using assms by (rule state_with_table)
  have err: "tab_get t ''day'' = TNil \<or> tab_get t ''month'' = TNil \<or> tab_get t ''year'' = TNil \<Longrightarrow>
      (\<exists>k \<in> {''day'', ''month'', ''year''}.
          fst (os_time env L) = Inl (LJ_ERR_OSDATEF k) \<and>
          \<not> tv_isnumber env (tab_get t k) \<and>
          ((\<forall>j \<in> {''day'', ''month'', ''year''}.
               tab_get t j = TNil \<or> tv_isnumber env (tab_get t j)) \<longrightarrow>
           tab_get t k = TNil)) \<and>
      mktime_args (calls (snd (os_time env L))) = mktime_args (calls L)"
    unfolding L by (auto simp: os_time_tab mktime_args_append)
  have ok: "tv_isnumber env (tab_get t ''day'') \<and> tv_isnumber env (tab_get t ''month'') \<and>
      tv_isnumber env (tab_get t ''year'') \<Longrightarrow>
        fst (os_time env L) = Inr 1 \<and>
        (\<exists>ts. mktime_args (calls (snd (os_time env L))) = mktime_args (calls L) @ [ts] \<and>
              tm_mday ts = tv_toint env (tab_get t ''day'') \<and>
              tm_mon ts = tv_toint env (tab_get t ''month'') - 1 \<and>
              tm_year ts = tv_toint env (tab_get t ''year'') - 1900 \<and>
              (tab_get t ''sec'' = TNil \<longrightarrow> tm_sec ts = 0) \<and>
              (tab_get t ''min'' = TNil \<longrightarrow> tm_min ts = 0) \<and>
              (tab_get t ''hour'' = TNil \<longrightarrow> tm_hour ts = 12) \<and>
              (tab_get t ''isdst'' = TNil \<longrightarrow> tm_isdst ts = - 1))"
    unfolding L
    by (simp add: os_time_tab mktime_args_append compose_tm_def field_or_def isdst_of_def)
  from err ok show ?thesis by blast
qed

text \<open>
  \<open>{hour = 5}\<close> fails on a required field; \<open>{day = 1, month = 1, year = 1970}\<close> reaches
  \<^verbatim>\<open>mktime\<close> with noon of that day and an unknown isdst.
\<close>

theorem os_time_required_fields_witness:
  "(\<exists>k \<in> {''day'', ''month'', ''year''}.
      fst (os_time ex_env (ex_state [TTab [(''hour'', TNum 5)]])) = Inl (LJ_ERR_OSDATEF k))
   \<and> mktime_args (calls (snd (os_time ex_env (ex_state [TTab [(''hour'', TNum 5)]])))) = []
   \<and> fst (os_time ex_env
        (ex_state [TTab [(''day'', TNum 1), (''month'', TNum 1), (''year'', TNum 1970)]])) = Inr 1
   \<and> (\<exists>ts. mktime_args (calls (snd (os_time ex_env
              (ex_state [TTab [(''day'', TNum 1), (''month'', TNum 1), (''year'', TNum 1970)]]))))
            = [ts]
          \<and> tm_mday ts = 1 \<and> tm_mon ts = 0 \<and> tm_year ts = 70
          \<and> tm_sec ts = 0 \<and> tm_min ts = 0 \<and> tm_hour ts = 12 \<and> tm_isdst ts = - 1)"
  using os_time_required_fields
    [of "ex_state [TTab [(''hour'', TNum 5)]]" "[(''hour'', TNum 5)]" "[]" ex_env]
    os_time_required_fields
    [of "ex_state [TTab [(''day'', TNum 1), (''month'', TNum 1), (''year'', TNum 1970)]]"
        "[(''day'', TNum 1), (''month'', TNum 1), (''year'', TNum 1970)]" "[]" ex_env]
  by (simp add: ex_state_def ex_env_def tab_get_def tv_toint_def tv_tointeger_def)

subsection \<open>The isdst field\<close>

text \<open>
  Claim C9. The isdst field is read for its truth value: in the struct given to
  \<^verbatim>\<open>mktime\<close>, \<^verbatim>\<open>tm_isdst\<close> is -1 when the field is absent (nil), 0 when it is the
  boolean false, and 1 for every other value, the number 0 included.
\<close>

theorem os_time_isdst_truthiness:
  assumes "stack L = TTab t # rest"
    and "tv_isnumber env (tab_get t ''day'')"
    and "tv_isnumber env (tab_get t ''month'')"
    and "tv_isnumber env (tab_get t ''year'')"
  shows "\<exists>ts. mktime_args (calls (snd (os_time env L))) = mktime_args (calls L) @ [ts] \<and>
              tm_isdst ts = (if tab_get t ''isdst'' = TNil then - 1
                             else if tab_get t ''isdst'' = TBool False then 0 else 1)"
proof -
  obtain b cs where L: "L = \<lparr>stack = TTab t # rest, tmpbuf = b, calls = cs\<rparr>"
    using assms(1) by (rule state_with_table)
  show ?thesis
    unfolding L using assms(2-4)
    by (simp add: os_time_tab mktime_args_append compose_tm_def isdst_of_def)
qed

text \<open>A caller who passes \<open>isdst = 0\<close> gets \<^verbatim>\<open>tm_isdst = 1\<close>.\<close>

theorem os_time_isdst_truthiness_witness:
  "\<exists>ts. mktime_args (calls (snd (os_time ex_env
            (ex_state [TTab [(''day'', TNum 1), (''month'', TNum 1), (''year'', TNum 1970),
                             (''isdst'', TNum 0)]])))) = [ts]
        \<and> tm_isdst ts = 1"
  using os_time_isdst_truthiness
    [of "ex_state [TTab [(''day'', TNum 1), (''month'', TNum 1), (''year'', TNum 1970),
                         (''isdst'', TNum 0)]]"
        "[(''day'', TNum 1), (''month'', TNum 1), (''year'', TNum 1970), (''isdst'', TNum 0)]"
        "[]" ex_env]
  by (simp add: ex_state_def tab_get_def)

subsection \<open>A field that is present but not a number\<close>

lemma tab_get_update:
  "tab_get (AList.update k v t) j = (if j = k then v else tab_get t j)"
  by (simp add: tab_get_def update_conv')

lemma compose_tm_numeric_string:
  assumes "tab_get t k = TStr s" and "strscan env s = Some n" and "k \<noteq> ''isdst''"
  shows "compose_tm env (AList.update k (TNum n) t) = compose_tm env t"
  using assms
  by (simp add: compose_tm_def field_or_def tab_get_update tv_toint_def tv_tointeger_def)

lemma isnumber_numeric_string:
  assumes "tab_get t k = TStr s" and "strscan env s = Some n"
  shows "tv_isnumber env (tab_get (AList.update k (TNum n) t) j) = tv_isnumber env (tab_get t j)"
  using assms by (simp add: tab_get_update)

text \<open>
  Claim C10, as the code has it. Take a field among sec, min, hour, day, month, year.
  When its value is neither a number nor a string that reads as a number (the test
  of \<^verbatim>\<open>lua_isnumber\<close>), the field is treated as if the table did not have it: the
  call on the table and the call on the table without the field give the caller the
  same outcome (the same error, or the same returned values) and the same log of
  calls; for day, month and year the outcome is the missing-field error, and for
  sec, min and hour the struct given to \<^verbatim>\<open>mktime\<close> holds the default. When its value
  is a string that reads as a number, the field is taken as that number. A call on
  a table fails with no other error than the missing-field error of day, month or
  year.
\<close>

theorem os_time_non_number_as_absent:
  assumes "stack L = TTab t # rest"
    and "k \<in> {''sec'', ''min'', ''hour'', ''day'', ''month'', ''year''}"
  shows "(\<not> tv_isnumber env (tab_get t k) \<longrightarrow>
            lj_outcome (os_time env L) =
              lj_outcome (os_time env (L\<lparr>stack := TTab (AList.delete k t) # rest\<rparr>)) \<and>
            calls (snd (os_time env L)) =
              calls (snd (os_time env (L\<lparr>stack := TTab (AList.delete k t) # rest\<rparr>))) \<and>
            (k \<in> {''day'', ''month'', ''year''} \<longrightarrow>
               (\<exists>j \<in> {''day'', ''month'', ''year''}.
                  fst (os_time env L) = Inl (LJ_ERR_OSDATEF j))) \<and>
            (\<forall>ts. mktime_args (calls (snd (os_time env L))) = mktime_args (calls L) @ [ts] \<longrightarrow>
               (k = ''sec'' \<longrightarrow> tm_sec ts = 0) \<and> (k = ''min'' \<longrightarrow> tm_min ts = 0) \<and>
               (k = ''hour'' \<longrightarrow> tm_hour ts = 12)))
       \<and> (\<forall>s n. tab_get t k = TStr s \<and> strscan env s = Some n \<longrightarrow>
            lj_outcome (os_time env L) =
              lj_outcome (os_time env (L\<lparr>stack := TTab (AList.update k (TNum n) t) # rest\<rparr>)) \<and>
            calls (snd (os_time env L)) =
              calls (snd (os_time env (L\<lparr>stack := TTab (AList.update k (TNum n) t) # rest\<rparr>))))
       \<and> (\<forall>e. fst (os_time env L) = Inl e \<longrightarrow> e \<in> LJ_ERR_OSDATEF ` {''day'', ''month'', ''year''})"
proof -
  obtain b cs where L: "L = \<lparr>stack = TTab t # rest, tmpbuf = b, calls = cs\<rparr>"
    using assms(1) by (rule state_with_table)
  have k: "k \<noteq> ''isdst''" using assms(2) by auto
  have absent: "lj_outcome (os_time env L) =
        lj_outcome (os_time env (L\<lparr>stack := TTab (AList.delete k t) # rest\<rparr>)) \<and>
      calls (snd (os_time env L)) =
        calls (snd (os_time env (L\<lparr>stack := TTab (AList.delete k t) # rest\<rparr>))) \<and>
      (k \<in> {''day'', ''month'', ''year''} \<longrightarrow>
         (\<exists>j \<in> {''day'', ''month'', ''year''}. fst (os_time env L) = Inl (LJ_ERR_OSDATEF j))) \<and>
      (\<forall>ts. mktime_args (calls (snd (os_time env L))) = mktime_args (calls L) @ [ts] \<longrightarrow>
         (k = ''sec'' \<longrightarrow> tm_sec ts = 0) \<and> (k = ''min'' \<longrightarrow> tm_min ts = 0) \<and>
         (k = ''hour'' \<longrightarrow> tm_hour ts = 12))"
    if nn: "\<not> tv_isnumber env (tab_get t k)"
  proof -
    have 1: "lj_outcome (os_time env L) =
        lj_outcome (os_time env (L\<lparr>stack := TTab (AList.delete k t) # rest\<rparr>))"
      unfolding L
      by (simp add: os_time_tab isnumber_delete [OF nn] compose_tm_delete [OF nn k]
          lj_outcome_def lj_results_def)
    have 2: "calls (snd (os_time env L)) =
        calls (snd (os_time env (L\<lparr>stack := TTab (AList.delete k t) # rest\<rparr>)))"
      unfolding L
      by (simp add: os_time_tab isnumber_delete [OF nn] compose_tm_delete [OF nn k])
    have 3: "k \<in> {''day'', ''month'', ''year''} \<longrightarrow>
        (\<exists>j \<in> {''day'', ''month'', ''year''}. fst (os_time env L) = Inl (LJ_ERR_OSDATEF j))"
      unfolding L using nn by (auto simp: os_time_tab)
    have 4: "\<forall>ts. mktime_args (calls (snd (os_time env L))) = mktime_args (calls L) @ [ts] \<longrightarrow>
        (k = ''sec'' \<longrightarrow> tm_sec ts = 0) \<and> (k = ''min'' \<longrightarrow> tm_min ts = 0) \<and>
        (k = ''hour'' \<longrightarrow> tm_hour ts = 12)"
      unfolding L using nn
      by (auto simp: os_time_tab mktime_args_append compose_tm_def field_or_def)
    from 1 2 3 4 show ?thesis by blast
  qed
  have numeric: "lj_outcome (os_time env L) =
        lj_outcome (os_time env (L\<lparr>stack := TTab (AList.update k (TNum n) t) # rest\<rparr>)) \<and>
      calls (snd (os_time env L)) =
        calls (snd (os_time env (L\<lparr>stack := TTab (AList.update k (TNum n) t) # rest\<rparr>)))"
    if str: "tab_get t k = TStr s" and scan: "strscan env s = Some n" for s n
    unfolding L
    by (simp add: os_time_tab isnumber_numeric_string [OF str scan]
        compose_tm_numeric_string [OF str scan k] lj_outcome_def lj_results_def)
  have errs: "\<forall>e. fst (os_time env L) = Inl e \<longrightarrow> e \<in> LJ_ERR_OSDATEF ` {''day'', ''month'', ''year''}"
    unfolding L by (simp add: os_time_tab)
  from absent numeric errs show ?thesis by blast
qed

text \<open>
  \<open>{day = true, month = 1, year = 1970}\<close> fails as \<open>{month = 1, year = 1970}\<close> does, with
  the missing-field error; \<open>hour = "noon"\<close> gives what no hour gives; and where the
  string \<open>1\<close> reads as a number, \<open>day = "1"\<close> gives what \<open>day = 1\<close> gives.
\<close>

theorem os_time_non_number_as_absent_witness:
  "lj_outcome (os_time ex_env
      (ex_state [TTab [(''day'', TBool True), (''month'', TNum 1), (''year'', TNum 1970)]])) =
   lj_outcome (os_time ex_env (ex_state [TTab [(''month'', TNum 1), (''year'', TNum 1970)]]))
   \<and> (\<exists>j \<in> {''day'', ''month'', ''year''}.
        fst (os_time ex_env
          (ex_state [TTab [(''day'', TBool True), (''month'', TNum 1), (''year'', TNum 1970)]]))
        = Inl (LJ_ERR_OSDATEF j))
   \<and> lj_outcome (os_time ex_env
        (ex_state [TTab [(''hour'', TStr ''noon''), (''day'', TNum 1), (''month'', TNum 1),
                         (''year'', TNum 1970)]])) =
     lj_outcome (os_time ex_env
        (ex_state [TTab [(''day'', TNum 1), (''month'', TNum 1), (''year'', TNum 1970)]]))
   \<and> lj_outcome (os_time ex_env_scan
        (ex_state [TTab [(''day'', TStr ''1''), (''month'', TNum 1), (''year'', TNum 1970)]])) =
     lj_outcome (os_time ex_env_scan
        (ex_state [TTab [(''day'', TNum 1), (''month'', TNum 1), (''year'', TNum 1970)]]))"
  using os_time_non_number_as_absent
    [of "ex_state [TTab [(''day'', TBool True), (''month'', TNum 1), (''year'', TNum 1970)]]"
        "[(''day'', TBool True), (''month'', TNum 1), (''year'', TNum 1970)]" "[]"
        "''day''" ex_env]
    os_time_non_number_as_absent
    [of "ex_state [TTab [(''hour'', TStr ''noon''), (''day'', TNum 1), (''month'', TNum 1),
                         (''year'', TNum 1970)]]"
        "[(''hour'', TStr ''noon''), (''day'', TNum 1), (''month'', TNum 1), (''year'', TNum 1970)]"
        "[]" "''hour''" ex_env]
    os_time_non_number_as_absent
    [of "ex_state [TTab [(''day'', TStr ''1''), (''month'', TNum 1), (''year'', TNum 1970)]]"
        "[(''day'', TStr ''1''), (''month'', TNum 1), (''year'', TNum 1970)]" "[]"
        "''day''" ex_env_scan]
  by (simp add: ex_state_def tab_get_def ex_env_def ex_env_scan_def)

text \<open>
  The claim as stated: the string \<open>1\<close> is a value that is present and is not a number,
  yet where it reads as a number the call takes it for the day and succeeds, while
  the table without the field fails on day.
\<close>

theorem os_time_non_number_as_absent_counterexample:
  "tab_get [(''day'', TStr ''1''), (''month'', TNum 1), (''year'', TNum (1970 :: int))] ''day''
     = TStr ''1''
   \<and> fst (os_time ex_env_scan
        (ex_state [TTab [(''day'', TStr ''1''), (''month'', TNum 1), (''year'', TNum 1970)]]))
     = Inr 1
   \<and> mktime_args (calls (snd (os_time ex_env_scan
        (ex_state [TTab [(''day'', TStr ''1''), (''month'', TNum 1), (''year'', TNum 1970)]]))))
     = [tm_epoch\<lparr>tm_hour := 12, tm_isdst := - 1\<rparr>]
   \<and> fst (os_time ex_env_scan (ex_state [TTab [(''month'', TNum 1), (''year'', TNum 1970)]]))
     = Inl (LJ_ERR_OSDATEF ''day'')"
  by (simp add: ex_state_def os_time_tab tab_get_def ex_env_scan_def ex_env_def compose_tm_def
      field_or_def tv_toint_def tv_tointeger_def isdst_of_def tm_epoch_def)

section \<open>Formatting a time: \<^verbatim>\<open>os_date\<close>\<close>

subsection \<open>The arguments and the conversion of the instant\<close>

lemma buf_requests_append: "buf_requests (xs @ ys) = buf_requests xs @ buf_requests ys"
  by (induction xs rule: buf_requests.induct) simp_all

lemma strftime_caps_append: "strftime_caps (xs @ ys) = strftime_caps xs @ strftime_caps ys"
  by (induction xs rule: strftime_caps.induct) simp_all

lemma os_date_str:
  assumes "instant_ok env rest"
  shows "os_date env \<lparr>stack = TStr s0 # rest, tmpbuf = b, calls = cs\<rparr> =
     bindL (date_branch env (date_pattern s0) (date_stm env s0 (opt_instant env rest)))
       (\<lambda>_. returnL 1)
       \<lparr>stack = TStr s0 # rest, tmpbuf = b,
        calls = cs @ instant_calls rest @ [date_stm_call s0 (opt_instant env rest)]\<rparr>"
proof (cases rest)
  case Nil
  then show ?thesis
    by (simp add: os_date_def bindL_def returnL_def luaL_optstring_def index2adr_def
        index2pos_def lua_isnoneornil_def c_time_def c_gmtime_r_def c_localtime_r_def
        log_call_def date_pattern_def date_stm_def date_stm_call_def
        date_utc_def)
next
  case (Cons v vs)
  show ?thesis
  proof (cases "v = TNil")
    case True
    with Cons show ?thesis
      by (simp add: os_date_def bindL_def returnL_def luaL_optstring_def index2adr_def
          index2pos_def lua_isnoneornil_def c_time_def c_gmtime_r_def c_localtime_r_def
          log_call_def date_pattern_def date_stm_def date_stm_call_def
          date_utc_def)
  next
    case False
    with Cons assms obtain n where n: "tv_tonumber env v = Some n"
      by (cases v) auto
    with Cons False show ?thesis
      by (simp add: os_date_def bindL_def returnL_def luaL_optstring_def index2adr_def
          index2pos_def lua_isnoneornil_def luaL_checknumber_def c_gmtime_r_def
          c_localtime_r_def log_call_def date_pattern_def date_stm_def
          date_stm_call_def date_utc_def)
  qed
qed

subsection \<open>The table of fields\<close>

lemma lua_setfield_below_top:
  "lua_setfield (- 2) key \<lparr>stack = st @ [TTab t, v], tmpbuf = b, calls = cs\<rparr> =
     (Inr (), \<lparr>stack = st @ [TTab (AList.update key v t)], tmpbuf = b, calls = cs\<rparr>)"
  by (auto simp: lua_setfield_def index2adr_def index2pos_def lua_pop_def nth_append
      list_update_append nat_add_distrib)

lemma setfield_top:
  "setfield env key v \<lparr>stack = st @ [TTab t], tmpbuf = b, calls = cs\<rparr> =
     (Inr (), \<lparr>stack = st @ [TTab (AList.update key (TNum (int2num env (sint v))) t)],
               tmpbuf = b, calls = cs\<rparr>)"
  using lua_setfield_below_top [of key st t "TNum (int2num env (sint v))" b cs]
  by (simp add: setfield_def lua_pushinteger_def lua_push_def)

lemma setboolfield_top:
  "setboolfield key v \<lparr>stack = st @ [TTab t], tmpbuf = b, calls = cs\<rparr> =
     (Inr (), \<lparr>stack = st @ [TTab (if v <s 0 then t else AList.update key (TBool (v \<noteq> 0)) t)],
               tmpbuf = b, calls = cs\<rparr>)"
  using lua_setfield_below_top [of key st t "TBool (v \<noteq> 0)" b cs]
  by (simp add: setboolfield_def lua_pushboolean_def lua_push_def)

lemma os_date_table_fields:
  "os_date_table env stm \<lparr>stack = st, tmpbuf = b, calls = cs\<rparr> =
     (Inr (), \<lparr>stack = st @ [TTab (decompose_fields env stm)], tmpbuf = b, calls = cs\<rparr>)"
  by (simp add: os_date_table_def bindL_def lua_push_def setfield_top setboolfield_top
      decompose_fields_def)

text \<open>
  Claim C3, as the code has it. With the pattern \<open>*t\<close> (after a leading \<open>!\<close>, if any) and an instant the
  conversion accepts, \<^verbatim>\<open>os_date\<close> returns one value, the table whose fields are sec,
  min, hour and day as the struct has them, month, wday and yday plus 1, year plus
  1900, and isdst as a boolean when the raw value is not negative, and no isdst
  when it is. The sums are those of the C \<^verbatim>\<open>int\<close>, which wrap modulo \<open>2^32\<close>; they
  are the sums of the integers whenever these fit: for the year, whenever the raw year
  is at most 2147481747.
\<close>

theorem os_date_table_of_fields:
  assumes "stack L = TStr s0 # rest"
    and "instant_ok env rest"
    and "date_pattern s0 = ''*t''"
    and "date_stm env s0 (opt_instant env rest) = Some stm"
  shows "lj_outcome (os_date env L) = Inr (Some [TTab
           ([(''sec'', TNum (int2num env (sint (tm_sec stm)))),
             (''min'', TNum (int2num env (sint (tm_min stm)))),
             (''hour'', TNum (int2num env (sint (tm_hour stm)))),
             (''day'', TNum (int2num env (sint (tm_mday stm)))),
             (''month'', TNum (int2num env (sint (tm_mon stm + 1)))),
             (''year'', TNum (int2num env (sint (tm_year stm + 1900)))),
             (''wday'', TNum (int2num env (sint (tm_wday stm + 1)))),
             (''yday'', TNum (int2num env (sint (tm_yday stm + 1))))]
            @ (if tm_isdst stm <s 0 then [] else [(''isdst'', TBool (tm_isdst stm \<noteq> 0))]))])
       \<and> (sint (tm_mon stm) < 2147483647 \<longrightarrow> sint (tm_mon stm + 1) = sint (tm_mon stm) + 1)
       \<and> (sint (tm_year stm) < 2147481748 \<longrightarrow> sint (tm_year stm + 1900) = sint (tm_year stm) + 1900)
       \<and> (sint (tm_wday stm) < 2147483647 \<longrightarrow> sint (tm_wday stm + 1) = sint (tm_wday stm) + 1)
       \<and> (sint (tm_yday stm) < 2147483647 \<longrightarrow> sint (tm_yday stm + 1) = sint (tm_yday stm) + 1)"
proof -
  obtain b cs where L: "L = \<lparr>stack = TStr s0 # rest, tmpbuf = b, calls = cs\<rparr>"
    using assms(1) by (cases L) auto
  have tab: "lj_outcome (os_date env L) = Inr (Some [TTab (decompose_fields env stm)])"
    unfolding L
    by (simp add: os_date_str [OF assms(2)] assms(3,4) date_branch_def bindL_def returnL_def
        os_date_table_fields lj_outcome_def lj_results_def)
  have plus: "sint w + sint k < 2147483648 \<Longrightarrow> 0 \<le> sint k \<Longrightarrow> sint (w + k) = sint w + sint k"
    for w k :: c_int
  proof -
    assume a: "sint w + sint k < 2147483648" "0 \<le> sint k"
    have lo: "- 2147483648 \<le> sint w" using sint_ge [of w] by simp
    have "sint (w + k) = signed_take_bit 31 (sint w + sint k)"
      by (simp add: sint_word_ariths)
    also have "\<dots> = sint w + sint k"
      using a lo by (intro signed_take_bit_int_eq_self) simp_all
    finally show ?thesis .
  qed
  from tab plus [of "tm_mon stm" 1] plus [of "tm_year stm" 1900] plus [of "tm_wday stm" 1]
    plus [of "tm_yday stm" 1]
  show ?thesis by (simp add: decompose_fields_def)
qed

text \<open>The epoch in UTC: Thursday, the first of January 1970, no daylight saving.\<close>

theorem os_date_table_of_fields_witness:
  "lj_outcome (os_date ex_env (ex_state [TStr ''!*t'', TNum 0])) =
     Inr (Some [TTab [(''sec'', TNum 0), (''min'', TNum 0), (''hour'', TNum 0),
                      (''day'', TNum 1), (''month'', TNum 1), (''year'', TNum 1970),
                      (''wday'', TNum 5), (''yday'', TNum 1), (''isdst'', TBool False)]])"
  using os_date_table_of_fields
    [of "ex_state [TStr ''!*t'', TNum 0]" "''!*t''" "[TNum 0]" ex_env tm_epoch]
  by (simp add: ex_state_def ex_env_def date_pattern_def date_utc_def c_str_def date_stm_def
      tm_epoch_def word_sless_alt)

text \<open>
  The claim as stated, "for every instant the OS conversion accepts": the UTC conversion
  accepts the instant 67768036191676792 with the raw year 2147483647. The raw year
  plus 1900 is 2147485547; the C \<^verbatim>\<open>int\<close> wraps, and the table holds -2147481749.
\<close>

theorem os_date_table_of_fields_counterexample:
  "gmtime_r ex_env_far (num2time ex_env_far 67768036191676792) = Some tm_far
   \<and> sint (tm_year tm_far) + 1900 = 2147485547
   \<and> lj_outcome (os_date ex_env_far (ex_state [TStr ''!*t'', TNum 67768036191676792])) =
       Inr (Some [TTab [(''sec'', TNum 52), (''min'', TNum 59), (''hour'', TNum 23),
                        (''day'', TNum 31), (''month'', TNum 12),
                        (''year'', TNum (- 2147481749)),
                        (''wday'', TNum 4), (''yday'', TNum 365), (''isdst'', TBool False)]])"
proof -
  have ok: "instant_ok ex_env_far [TNum 67768036191676792]" by simp
  have conv: "date_stm ex_env_far ''!*t'' (num2time ex_env_far 67768036191676792) = Some tm_far"
    by (simp add: date_stm_def date_utc_def c_str_def ex_env_far_def ex_env_def)
  have pat: "date_pattern ''!*t'' = ''*t''"
    by (simp add: date_pattern_def date_utc_def c_str_def)
  have run: "os_date ex_env_far (ex_state [TStr ''!*t'', TNum 67768036191676792]) =
      (Inr 1, \<lparr>stack = [TStr ''!*t'', TNum 67768036191676792,
                         TTab (decompose_fields ex_env_far tm_far)],
               tmpbuf = 0,
               calls = [date_stm_call ''!*t'' (opt_instant ex_env_far [TNum 67768036191676792])]\<rparr>)"
    unfolding ex_state_def os_date_str [OF ok]
    by (simp add: conv pat date_branch_def bindL_def returnL_def os_date_table_fields)
  show ?thesis
    unfolding run
    by (simp add: lj_outcome_def lj_results_def decompose_fields_def tm_far_def ex_env_far_def
        ex_env_def word_sless_alt)
qed

subsection \<open>The empty pattern\<close>

lemma strftime_caps_instant_calls [simp]: "strftime_caps (instant_calls rest) = []"
  by (cases rest) simp_all

lemma strftime_caps_stm_call [simp]: "strftime_caps [date_stm_call s0 t] = []"
  by (simp add: date_stm_call_def)

text \<open>
  Claim C6, as the code has it. With an empty pattern (after a leading \<open>!\<close>, if any),
  \<^verbatim>\<open>os_date\<close> never calls \<^verbatim>\<open>strftime\<close>. It returns the empty string for an instant
  the conversion accepts, and nil for an instant the conversion rejects: the test
  \<^verbatim>\<open>stm == NULL\<close> comes first.
\<close>

theorem os_date_empty_pattern:
  assumes "stack L = TStr s0 # rest"
    and "instant_ok env rest"
    and "date_pattern s0 = []"
  shows "(date_stm env s0 (opt_instant env rest) \<noteq> None \<longrightarrow>
            lj_outcome (os_date env L) = Inr (Some [TStr []]))
       \<and> (date_stm env s0 (opt_instant env rest) = None \<longrightarrow>
            lj_outcome (os_date env L) = Inr (Some [TNil]))
       \<and> strftime_caps (calls (snd (os_date env L))) = strftime_caps (calls L)"
proof -
  obtain b cs where L: "L = \<lparr>stack = TStr s0 # rest, tmpbuf = b, calls = cs\<rparr>"
    using assms(1) by (cases L) auto
  show ?thesis
  proof (cases "date_stm env s0 (opt_instant env rest)")
    case None
    then show ?thesis
      unfolding L
      by (simp add: os_date_str [OF assms(2)] assms(3) date_branch_def bindL_def returnL_def
          lua_push_def lj_outcome_def lj_results_def strftime_caps_append)
  next
    case (Some stm)
    then show ?thesis
      unfolding L
      by (simp add: os_date_str [OF assms(2)] assms(3) date_branch_def bindL_def returnL_def
          lua_push_def lj_outcome_def lj_results_def strftime_caps_append)
  qed
qed

theorem os_date_empty_pattern_witness:
  "lj_outcome (os_date ex_env (ex_state [TStr ''!'', TNum 0])) = Inr (Some [TStr []])
   \<and> strftime_caps (calls (snd (os_date ex_env (ex_state [TStr ''!'', TNum 0])))) = []"
  using os_date_empty_pattern [of "ex_state [TStr ''!'', TNum 0]" "''!''" "[TNum 0]" ex_env]
  by (simp add: ex_state_def ex_env_def date_pattern_def date_utc_def c_str_def date_stm_def)

text \<open>
  The claim as stated, "for every instant": the instant \<open>2^62\<close> lies beyond the years
  a \<^verbatim>\<open>struct tm\<close> can hold, the conversion rejects it, and the empty pattern returns
  nil, not the empty string.
\<close>

theorem os_date_empty_pattern_counterexample:
  "localtime_r ex_env (num2time ex_env 4611686018427387904) = None
   \<and> lj_outcome (os_date ex_env (ex_state [TStr [], TNum 4611686018427387904])) = Inr (Some [TNil])
   \<and> lj_outcome (os_date ex_env (ex_state [TStr [], TNum 4611686018427387904])) \<noteq>
       Inr (Some [TStr []])"
proof -
  have ok: "instant_ok ex_env [TNum 4611686018427387904]" by simp
  have run: "os_date ex_env (ex_state [TStr [], TNum 4611686018427387904]) =
      (Inr 1, \<lparr>stack = [TStr [], TNum 4611686018427387904, TNil], tmpbuf = 0,
               calls = [Call_localtime 4611686018427387904]\<rparr>)"
    unfolding ex_state_def os_date_str [OF ok]
    by (simp add: date_branch_def bindL_def returnL_def lua_push_def date_pattern_def
        date_utc_def c_str_def date_stm_def date_stm_call_def ex_env_def)
  show ?thesis
    unfolding run by (simp add: lj_outcome_def lj_results_def ex_env_def)
qed

subsection \<open>The first estimate of the capacity\<close>

lemma pattern_units_Cons:
  "pattern_units (q # qs) = (if q = CHR ''%'' then 30 else 1) + pattern_units qs"
  by (simp add: pattern_units_def)

lemma date_estimate_acc: "date_estimate s sz = sz + of_nat (pattern_units s)"
proof (induction s arbitrary: sz)
  case Nil
  show ?case by (simp add: pattern_units_def)
next
  case (Cons q qs)
  show ?case by (simp add: Cons.IH pattern_units_Cons)
qed

lemma pattern_units_bounds: "length s \<le> pattern_units s \<and> pattern_units s \<le> 30 * length s"
  by (induction s) (simp_all add: pattern_units_def)

lemma pattern_units_replicate: "pattern_units (replicate n (CHR ''%'')) = 30 * n"
  by (induction n) (simp_all add: pattern_units_def)

text \<open>
  Claim C5, as the code has it. The estimate is the sum of the units of the pattern,
  30 for each \<open>%\<close> and 1 for each other character, in the 32 bits of an \<^verbatim>\<open>MSize\<close>:
  the sum modulo \<open>2^32\<close>. It is the sum itself, hence at least the length of the
  pattern and at least 1 for a non-empty pattern, whenever the sum is below \<open>2^32\<close>,
  which holds for every pattern of at most 143165576 characters.
\<close>

theorem date_estimate_units:
  "unat (date_estimate s 0) = pattern_units s mod 2 ^ 32
   \<and> (pattern_units s < 2 ^ 32 \<longrightarrow>
        unat (date_estimate s 0) = pattern_units s \<and>
        length s \<le> unat (date_estimate s 0) \<and>
        (s \<noteq> [] \<longrightarrow> 1 \<le> unat (date_estimate s 0)))
   \<and> (length s \<le> 143165576 \<longrightarrow> pattern_units s < 2 ^ 32)"
proof -
  have m: "unat (date_estimate s 0) = pattern_units s mod 2 ^ 32"
    by (simp add: date_estimate_acc unat_of_nat)
  have len: "length s \<le> pattern_units s" and up: "pattern_units s \<le> 30 * length s"
    using pattern_units_bounds [of s] by simp_all
  have pos: "s \<noteq> [] \<Longrightarrow> 1 \<le> pattern_units s"
    using len by (cases s) simp_all
  have small: "length s \<le> 143165576 \<Longrightarrow> pattern_units s < 2 ^ 32"
    using up by simp
  from m len pos small show ?thesis by simp
qed

theorem date_estimate_units_witness:
  "unat (date_estimate ''%H:%M'' 0) = 63 \<and> length ''%H:%M'' \<le> unat (date_estimate ''%H:%M'' 0)"
  using date_estimate_units [of "''%H:%M''"]
  by (simp add: pattern_units_def)

text \<open>
  The claim as stated, "for every non-empty pattern": on the pattern of 143165577
  characters \<open>%\<close> the loop adds 30 that many times, 4294967310 in all, and the
  \<^verbatim>\<open>MSize\<close> holds 14: neither the sum nor at least the length of the pattern.
\<close>

theorem date_estimate_units_counterexample:
  "unat (date_estimate (replicate 143165577 (CHR ''%'')) 0) = 14
   \<and> pattern_units (replicate 143165577 (CHR ''%'')) = 4294967310
   \<and> unat (date_estimate (replicate 143165577 (CHR ''%'')) 0) <
       length (replicate 143165577 (CHR ''%''))"
  by (simp add: date_estimate_acc pattern_units_replicate)

subsection \<open>The retry loop\<close>

lemma date_loop_0: "date_loop env s stm 0 sz L = (Inr (), L)"
  by (simp add: date_loop.simps)

lemma date_loop_step:
  assumes "retry \<noteq> 0"
  shows "date_loop env s stm retry sz L =
     (case lj_buf_need env (tmpbuf L) sz of
        None \<Rightarrow> (Inl LJ_ERR_MEM, L\<lparr>calls := calls L @ [Call_buf_need sz]\<rparr>)
      | Some cap \<Rightarrow>
          if strftime env cap s stm \<noteq> []
          then (Inr (), \<lparr>stack = stack L @ [TStr (strftime env cap s stm)], tmpbuf = cap,
                         calls = calls L @ [Call_buf_need sz, Call_strftime cap s stm]\<rparr>)
          else date_loop env s stm (retry - 1) (date_grow sz)
                 \<lparr>stack = stack L, tmpbuf = cap,
                  calls = calls L @ [Call_buf_need sz, Call_strftime cap s stm]\<rparr>)"
  using assms
  by (subst date_loop.simps, cases L)
     (simp add: buf_need_def c_strftime_def log_call_def lua_push_def date_grow_def
       split: option.splits)


lemma date_loop_requests:
  "unat retry = n \<Longrightarrow>
   \<exists>k \<le> n. buf_requests (calls (snd (date_loop env s stm retry sz L))) =
              buf_requests (calls L) @ grow_seq k sz"
proof (induction n arbitrary: retry sz L)
  case 0
  then have "retry = 0" by (simp add: unat_eq_0)
  then show ?case by (simp add: date_loop_0)
next
  case (Suc n)
  then have nz: "retry \<noteq> 0" by auto
  have dec: "unat (retry - 1) = n"
    using Suc.prems nz by (simp add: unat_minus_one)
  show ?case
  proof (cases "lj_buf_need env (tmpbuf L) sz")
    case None
    then have "buf_requests (calls (snd (date_loop env s stm retry sz L))) =
        buf_requests (calls L) @ grow_seq 1 sz"
      by (simp add: date_loop_step [OF nz] buf_requests_append)
    then show ?thesis by (intro exI [of _ 1]) simp
  next
    case (Some cap)
    show ?thesis
    proof (cases "strftime env cap s stm \<noteq> []")
      case True
      with Some have "buf_requests (calls (snd (date_loop env s stm retry sz L))) =
          buf_requests (calls L) @ grow_seq 1 sz"
        by (simp add: date_loop_step [OF nz] buf_requests_append)
      then show ?thesis by (intro exI [of _ 1]) simp
    next
      case False
      let ?L2 = "\<lparr>stack = stack L, tmpbuf = cap,
                  calls = calls L @ [Call_buf_need sz, Call_strftime cap s stm]\<rparr>"
      from Suc.IH [OF dec, of "date_grow sz" ?L2]
      obtain k where k: "k \<le> n"
        and eq: "buf_requests (calls (snd (date_loop env s stm (retry - 1) (date_grow sz) ?L2))) =
                 buf_requests (calls ?L2) @ grow_seq k (date_grow sz)"
        by blast
      from Some False eq
      have "buf_requests (calls (snd (date_loop env s stm retry sz L))) =
          buf_requests (calls L) @ grow_seq (Suc k) sz"
        by (simp add: date_loop_step [OF nz] buf_requests_append)
      with k show ?thesis by (intro exI [of _ "Suc k"]) simp
    qed
  qed
qed

lemma date_loop_first_request:
  assumes "retry \<noteq> 0"
  shows "\<exists>rs. buf_requests (calls (snd (date_loop env s stm retry sz L))) =
              buf_requests (calls L) @ sz # rs"
proof (cases "lj_buf_need env (tmpbuf L) sz")
  case None
  then show ?thesis
    by (simp add: date_loop_step [OF assms] buf_requests_append)
next
  case (Some cap)
  show ?thesis
  proof (cases "strftime env cap s stm \<noteq> []")
    case True
    with Some show ?thesis
      by (simp add: date_loop_step [OF assms] buf_requests_append)
  next
    case False
    let ?L2 = "\<lparr>stack = stack L, tmpbuf = cap,
                calls = calls L @ [Call_buf_need sz, Call_strftime cap s stm]\<rparr>"
    from date_loop_requests [of "retry - 1" "unat (retry - 1)" env s stm "date_grow sz" ?L2]
    obtain k where
      "buf_requests (calls (snd (date_loop env s stm (retry - 1) (date_grow sz) ?L2))) =
         buf_requests (calls ?L2) @ grow_seq k (date_grow sz)"
      by blast
    with Some False show ?thesis
      by (simp add: date_loop_step [OF assms] buf_requests_append)
  qed
qed

subsection \<open>The environment of the examples\<close>

lemma ex_env_fields:
  "strftime ex_env = ex_strftime"
  "lj_buf_need ex_env = ex_buf_need"
  "localtime_r ex_env t = (if t = 0 then Some tm_epoch else None)"
  "gmtime_r ex_env t = (if t = 0 then Some tm_epoch else None)"
  "num2time ex_env = word_of_int"
  "time_now ex_env = 0"
  "tv_tonumber ex_env (TNum n) = Some n"
  by (simp_all add: ex_env_def)

lemma ex_env_plain: "strftime_plain ex_env"
  by (simp add: strftime_plain_def ex_env_def ex_strftime_def)

lemma buf_double_numeral:
  "buf_double (numeral k) nsz sz =
     (if nsz < sz then buf_double (pred_numeral k) (nsz + nsz) sz else nsz)"
  by (simp add: numeral_eq_Suc)

subsection \<open>The sizes asked and the capacities given\<close>





subsection \<open>A render that stays empty\<close>

text \<open>
  Claim C1 against the code. In the environment of the examples the pattern
  \<open>%p\<close> renders to nothing, so each of the four attempts reports length 0. The loop
  then ends with no value pushed, and \<^verbatim>\<open>return 1\<close> hands the caller the slot on top
  of the stack: the last argument of the call (the instant 0, or the pattern itself
  when it is the only argument), not the empty string. The branch of the empty
  pattern, four lines further, does push the empty string.
\<close>

theorem os_date_empty_render_returns_argument:
  "strftime_caps (calls (snd (os_date ex_env (ex_state [TStr ''%p'', TNum 0])))) =
     [32, 64, 128, 256]
   \<and> lj_outcome (os_date ex_env (ex_state [TStr ''%p'', TNum 0])) = Inr (Some [TNum 0])
   \<and> lj_outcome (os_date ex_env (ex_state [TStr ''%p'', TNum 0])) \<noteq> Inr (Some [TStr []])
   \<and> lj_outcome (os_date ex_env (ex_state [TStr ''%p''])) = Inr (Some [TStr ''%p''])"
proof -
  have ok2: "instant_ok ex_env [TNum 0]" and ok1: "instant_ok ex_env []" by simp_all
  have run2: "os_date ex_env (ex_state [TStr ''%p'', TNum 0]) =
      (Inr 1, \<lparr>stack = [TStr ''%p'', TNum 0], tmpbuf = 256,
               calls = [Call_localtime 0,
                        Call_buf_need 31, Call_strftime 32 ''%p'' tm_epoch,
                        Call_buf_need 62, Call_strftime 64 ''%p'' tm_epoch,
                        Call_buf_need 125, Call_strftime 128 ''%p'' tm_epoch,
                        Call_buf_need 250, Call_strftime 256 ''%p'' tm_epoch]\<rparr>)"
    unfolding ex_state_def os_date_str [OF ok2]
    by (simp add: date_branch_def bindL_def returnL_def date_pattern_def date_utc_def c_str_def
        date_stm_def date_stm_call_def ex_env_fields date_loop_step date_loop_0 date_grow_def
        ex_buf_need_def buf_double_numeral ex_strftime_def)
  have run1: "os_date ex_env (ex_state [TStr ''%p'']) =
      (Inr 1, \<lparr>stack = [TStr ''%p''], tmpbuf = 256,
               calls = [Call_time, Call_localtime 0,
                        Call_buf_need 31, Call_strftime 32 ''%p'' tm_epoch,
                        Call_buf_need 62, Call_strftime 64 ''%p'' tm_epoch,
                        Call_buf_need 125, Call_strftime 128 ''%p'' tm_epoch,
                        Call_buf_need 250, Call_strftime 256 ''%p'' tm_epoch]\<rparr>)"
    unfolding ex_state_def os_date_str [OF ok1]
    by (simp add: date_branch_def bindL_def returnL_def date_pattern_def date_utc_def c_str_def
        date_stm_def date_stm_call_def ex_env_fields date_loop_step date_loop_0 date_grow_def
        ex_buf_need_def buf_double_numeral ex_strftime_def)
  show ?thesis
    unfolding run1 run2 by (simp add: lj_outcome_def lj_results_def)
qed

lemma date_loop_never_renders:
  assumes "\<forall>cap. strftime env cap s stm = []"
  shows "unat retry = n \<Longrightarrow> stack (snd (date_loop env s stm retry sz L)) = stack L"
proof (induction n arbitrary: retry sz L)
  case 0
  then have "retry = 0" by (simp add: unat_eq_0)
  then show ?case by (simp add: date_loop_0)
next
  case (Suc n)
  then have nz: "retry \<noteq> 0" by auto
  have dec: "unat (retry - 1) = n"
    using Suc.prems nz by (simp add: unat_minus_one)
  show ?case
    using assms Suc.IH [OF dec]
    by (simp add: date_loop_step [OF nz] split: option.splits)
qed

subsection \<open>A pattern of ordinary characters\<close>

lemma pattern_units_plain: "CHR ''%'' \<notin> set s \<Longrightarrow> pattern_units s = length s"
  by (induction s) (auto simp: pattern_units_def)

text \<open>
  Claim C7, as the code has it. Let the pattern be non-empty, without \<open>%\<close> and not
  the reserved \<open>*t\<close>, the instant accepted, and \<^verbatim>\<open>strftime\<close> as the C standard has
  it on such a pattern. The estimate is the length of the pattern (modulo \<open>2^32\<close>),
  with no room for the terminating NUL. When the buffer that \<^verbatim>\<open>lj_buf_need\<close>
  provides for it is larger than the pattern, the first attempt succeeds: one call of
  \<^verbatim>\<open>strftime\<close>, and the pattern is the result. When the buffer is not larger, the
  first attempt reports 0 and the loop asks for the grown size.
\<close>

theorem os_date_plain_pattern:
  assumes "stack L = TStr s0 # rest"
    and "instant_ok env rest"
    and "date_stm env s0 (opt_instant env rest) = Some stm"
    and "date_pattern s0 \<noteq> []"
    and "date_pattern s0 \<noteq> ''*t''"
    and "CHR ''%'' \<notin> set (date_pattern s0)"
    and "strftime_plain env"
    and "lj_buf_need env (tmpbuf L) (date_estimate (date_pattern s0) 0) = Some cap"
  shows "unat (date_estimate (date_pattern s0) 0) = length (date_pattern s0) mod 2 ^ 32
       \<and> (length (date_pattern s0) < unat cap \<longrightarrow>
            lj_outcome (os_date env L) = Inr (Some [TStr (date_pattern s0)]) \<and>
            strftime_caps (calls (snd (os_date env L))) = strftime_caps (calls L) @ [cap])
       \<and> (\<not> length (date_pattern s0) < unat cap \<longrightarrow>
            (\<exists>rs. buf_requests (calls (snd (os_date env L))) =
                    buf_requests (calls L) @
                      date_estimate (date_pattern s0) 0 #
                      date_grow (date_estimate (date_pattern s0) 0) # rs))"
proof -
  let ?p = "date_pattern s0"
  let ?est = "date_estimate ?p 0"
  obtain b cs where L: "L = \<lparr>stack = TStr s0 # rest, tmpbuf = b, calls = cs\<rparr>"
    using assms(1) by (cases L) auto
  let ?L1 = "\<lparr>stack = TStr s0 # rest, tmpbuf = b,
              calls = cs @ instant_calls rest @ [date_stm_call s0 (opt_instant env rest)]\<rparr>"
  have cap: "lj_buf_need env b ?est = Some cap"
    using assms(8) by (simp add: L)
  have render: "strftime env cap ?p stm = (if length ?p < unat cap then ?p else [])"
    using assms(6,7) by (simp add: strftime_plain_def)
  have run: "os_date env L = bindL (date_loop env ?p stm 4 ?est) (\<lambda>_. returnL 1) ?L1"
    unfolding L by (simp add: os_date_str [OF assms(2)] assms(3,4,5) date_branch_def)
  have cL: "calls L = cs" by (simp add: L)
  have four: "(4 :: MSize) \<noteq> 0" by simp
  have reqs0: "buf_requests (instant_calls rest) = []" by (cases rest) simp_all
  have reqs1: "buf_requests [date_stm_call s0 t] = []" for t
    by (simp add: date_stm_call_def)
  have est: "unat ?est = length ?p mod 2 ^ 32"
    by (simp add: date_estimate_acc pattern_units_plain [OF assms(6)] unat_of_nat)
  have fits: "length ?p < unat cap \<Longrightarrow>
      lj_outcome (os_date env L) = Inr (Some [TStr ?p]) \<and>
      strftime_caps (calls (snd (os_date env L))) = strftime_caps (calls L) @ [cap]"
    using assms(4)
    by (simp add: run bindL_def returnL_def date_loop_step [OF four] cap render
        lj_outcome_def lj_results_def strftime_caps_append cL date_stm_call_def)
  have small: "\<exists>rs. buf_requests (calls (snd (os_date env L))) =
      buf_requests (calls L) @ ?est # date_grow ?est # rs"
    if "\<not> length ?p < unat cap"
  proof -
    let ?L2 = "\<lparr>stack = TStr s0 # rest, tmpbuf = cap,
                calls = calls ?L1 @ [Call_buf_need ?est, Call_strftime cap ?p stm]\<rparr>"
    have step: "date_loop env ?p stm 4 ?est ?L1 = date_loop env ?p stm 3 (date_grow ?est) ?L2"
      using that by (simp add: date_loop_step [OF four] cap render)
    have three: "(3 :: MSize) \<noteq> 0" by simp
    from date_loop_first_request [OF three, of env ?p stm "date_grow ?est" ?L2]
    obtain rs where rs:
      "buf_requests (calls (snd (date_loop env ?p stm 3 (date_grow ?est) ?L2))) =
         buf_requests (calls ?L2) @ date_grow ?est # rs"
      by blast
    have "calls (snd (os_date env L)) =
        calls (snd (date_loop env ?p stm 3 (date_grow ?est) ?L2))"
      by (simp add: run bindL_def returnL_def step split: prod.splits sum.splits)
    with rs show ?thesis
      by (simp add: buf_requests_append reqs0 reqs1 cL date_stm_call_def)
  qed
  from est fits small show ?thesis by blast
qed

text \<open>The pattern \<open>x\<close> in a fresh state: a buffer of 32 bytes, one call.\<close>

theorem os_date_plain_pattern_witness:
  "lj_outcome (os_date ex_env (ex_state [TStr ''x'', TNum 0])) = Inr (Some [TStr ''x''])
   \<and> strftime_caps (calls (snd (os_date ex_env (ex_state [TStr ''x'', TNum 0])))) = [32]"
  using os_date_plain_pattern
    [of "ex_state [TStr ''x'', TNum 0]" "''x''" "[TNum 0]" ex_env tm_epoch 32, OF _ _ _ _ _ _ ex_env_plain]
  by (simp add: ex_state_def ex_env_fields date_pattern_def date_utc_def c_str_def date_stm_def
      ex_buf_need_def buf_double_numeral)

text \<open>
  The claim as stated: the pattern of 32 characters \<open>x\<close> is not empty and has no \<open>%\<close>,
  and the epoch is a valid instant. In a fresh state the estimate is 32 and the
  buffer is 32 bytes; \<^verbatim>\<open>strftime\<close> needs 33 and reports 0; the loop grows the size
  to 65, the buffer to 128, and the second call succeeds. Two calls, not one. And
  the pattern \<open>*t\<close>, which has no \<open>%\<close> either, is never rendered: no call at all.
\<close>

theorem os_date_plain_pattern_counterexample:
  "ex_plain32 \<noteq> [] \<and> CHR ''%'' \<notin> set ex_plain32
   \<and> localtime_r ex_env (num2time ex_env 0) = Some tm_epoch
   \<and> date_estimate ex_plain32 0 = 32
   \<and> strftime_caps (calls (snd (os_date ex_env (ex_state [TStr ex_plain32, TNum 0])))) = [32, 128]
   \<and> buf_requests (calls (snd (os_date ex_env (ex_state [TStr ex_plain32, TNum 0])))) = [32, 65]
   \<and> lj_outcome (os_date ex_env (ex_state [TStr ex_plain32, TNum 0])) = Inr (Some [TStr ex_plain32])
   \<and> strftime_caps (calls (snd (os_date ex_env (ex_state [TStr ''*t'', TNum 0])))) = []"
proof -
  have ok: "instant_ok ex_env [TNum 0]" by simp
  have star: "os_date ex_env (ex_state [TStr ''*t'', TNum 0]) =
      (Inr 1, \<lparr>stack = [TStr ''*t'', TNum 0, TTab (decompose_fields ex_env tm_epoch)],
               tmpbuf = 0, calls = [Call_localtime 0]\<rparr>)"
    unfolding ex_state_def os_date_str [OF ok]
    by (simp add: date_branch_def bindL_def returnL_def date_pattern_def date_utc_def c_str_def
        date_stm_def date_stm_call_def ex_env_fields os_date_table_fields)
  have pat: "date_pattern ex_plain32 = ex_plain32" "date_utc ex_plain32 = False"
    by (simp_all add: date_pattern_def date_utc_def c_str_def ex_plain32_def)
  have est: "date_estimate ex_plain32 0 = 32"
    by (simp add: ex_plain32_def)
  have plain: "CHR ''%'' \<notin> set ex_plain32" and len: "length ex_plain32 = 32"
    and ne: "ex_plain32 \<noteq> []" and nt: "ex_plain32 \<noteq> ''*t''"
    by (simp_all add: ex_plain32_def)
  have run: "os_date ex_env (ex_state [TStr ex_plain32, TNum 0]) =
      (Inr 1, \<lparr>stack = [TStr ex_plain32, TNum 0, TStr ex_plain32], tmpbuf = 128,
               calls = [Call_localtime 0,
                        Call_buf_need 32, Call_strftime 32 ex_plain32 tm_epoch,
                        Call_buf_need 65, Call_strftime 128 ex_plain32 tm_epoch]\<rparr>)"
    unfolding ex_state_def os_date_str [OF ok]
    by (simp add: date_branch_def bindL_def returnL_def pat est plain len ne nt
        date_stm_def date_stm_call_def ex_env_fields date_loop_step date_loop_0 date_grow_def
        ex_buf_need_def buf_double_numeral ex_strftime_def)
  show ?thesis
    unfolding run star by (simp add: lj_outcome_def lj_results_def est plain ne ex_env_fields)
qed

end
